theory Spec2Isabelle
  imports Complex_Main
begin

section \<open>Data model\<close>

text \<open>
  Values a request body can hold for one field. JavaScript numbers are read as rationals:
  the only arithmetic the schemas do on them is a comparison with a lower bound.
\<close>

datatype jvalue = JString string | JNumber rat | JBool bool | JNull

text \<open>A payload is a JavaScript object: field names with their values, in insertion order.\<close>

type_synonym payload = "(string \<times> jvalue) list"

text \<open>One entry of the \<open>details\<close> array of a validation error.\<close>

record failure =
  message :: string
  path :: "string list"
  kind :: string

text \<open>
  An error value as the handlers read it: \<open>err.message\<close>, \<open>err.statusCode\<close> and
  \<open>err.details\<close>. The last two may be absent (\<open>undefined\<close>).
\<close>

record js_error =
  err_message :: string
  statusCode :: "int option"
  details :: "failure list option"

text \<open>
  The promise returned by \<open>Joi.validate\<close>, read at the moment the \<open>then\<close> and
  \<open>catch\<close> handlers are attached: fulfilled, rejected, or never settled.
\<close>

datatype 'a promise = Resolved 'a | Rejected js_error | Pending

text \<open>The options object handed to \<open>Joi.validate\<close>; the source sets only \<open>abortEarly\<close>.\<close>

record options =
  abortEarly :: bool

text \<open>
  \<open>Joi.validate\<close> belongs to the joi package, not to this repository. The code of the
  repository takes it as a parameter \<open>validate\<close> of this type, applied as
  \<open>validate payload schema options\<close>.
\<close>

type_synonym 's engine = "payload \<Rightarrow> 's \<Rightarrow> options \<Rightarrow> payload promise"

subsection \<open>Request, response and the flash store\<close>

type_synonym flash = "string \<Rightarrow> string list"

text \<open>
  Modelled from the spec: the flash store of the connect-flash package, which is not part
  of the sources. The spec describes it as a session-scoped queue of string messages per
  category with two operations: \<open>push(category, messages)\<close> appends to the category's
  queue, and \<open>drain(category)\<close> returns the queued messages and clears the category.
  \<open>req.flash(category, msgs)\<close> is \<open>flash_push\<close> (a single message is the list of
  that message), \<open>req.flash(category)\<close> is \<open>flash_drain\<close>.
\<close>

definition flash_push :: "string \<Rightarrow> string list \<Rightarrow> flash \<Rightarrow> flash" where
  "flash_push category msgs store = store(category := store category @ msgs)"

definition flash_drain :: "string \<Rightarrow> flash \<Rightarrow> string list \<times> flash" where
  "flash_drain category store = (store category, store(category := []))"

record request =
  body :: payload
  session_flash :: flash

text \<open>What a handler has sent as the response body.\<close>

datatype sent_body =
    ErrorBody int string
  | SuccessBody payload
  | TextBody string

datatype reply = Send sent_body | Redirect string

record response =
  status :: int
  reply :: "reply option"
  locals :: "string \<rightharpoonup> string list"

datatype log_entry = LogError string | LogMessages "string list" | LogPayload payload

text \<open>
  The objects a middleware can mutate: \<open>req\<close>, \<open>res\<close> and the console. A middleware
  is a function from this state to the new state and what happened to the pipeline.
\<close>

record exchange =
  req :: request
  res :: response
  console :: "log_entry list"

text \<open>
  How a middleware leaves the pipeline: it called \<open>next()\<close> (\<open>Next None\<close>) or
  \<open>next(err)\<close>, it ended the response itself, its promise handler threw a
  \<open>TypeError\<close> that nothing catches, or it still waits for a promise that never settles.
\<close>

datatype control = Next "js_error option" | Ended | UncaughtTypeError | Waiting

type_synonym middleware = "exchange \<Rightarrow> exchange \<times> control"

text \<open>The Express response methods the handlers call.\<close>

definition res_status :: "int \<Rightarrow> exchange \<Rightarrow> exchange" where
  "res_status code x = x\<lparr>res := (res x)\<lparr>status := code\<rparr>\<rparr>"

definition res_send :: "sent_body \<Rightarrow> exchange \<Rightarrow> exchange" where
  "res_send b x = x\<lparr>res := (res x)\<lparr>reply := Some (Send b)\<rparr>\<rparr>"

definition res_redirect :: "string \<Rightarrow> exchange \<Rightarrow> exchange" where
  "res_redirect target x = x\<lparr>res := (res x)\<lparr>reply := Some (Redirect target)\<rparr>\<rparr>"

definition req_flash_push :: "string \<Rightarrow> string list \<Rightarrow> exchange \<Rightarrow> exchange" where
  "req_flash_push category msgs x =
     x\<lparr>req := (req x)\<lparr>session_flash := flash_push category msgs (session_flash (req x))\<rparr>\<rparr>"

definition req_flash_drain :: "string \<Rightarrow> exchange \<Rightarrow> string list \<times> exchange" where
  "req_flash_drain category x =
     (let (msgs, store) = flash_drain category (session_flash (req x))
      in (msgs, x\<lparr>req := (req x)\<lparr>session_flash := store\<rparr>\<rparr>))"

definition set_body :: "payload \<Rightarrow> exchange \<Rightarrow> exchange" where
  "set_body p x = x\<lparr>req := (req x)\<lparr>body := p\<rparr>\<rparr>"

definition set_local :: "string \<Rightarrow> string list \<Rightarrow> exchange \<Rightarrow> exchange" where
  "set_local name msgs x = x\<lparr>res := (res x)\<lparr>locals := (locals (res x))(name \<mapsto> msgs)\<rparr>\<rparr>"

definition console_log :: "log_entry \<Rightarrow> exchange \<Rightarrow> exchange" where
  "console_log e x = x\<lparr>console := console x @ [e]\<rparr>"

section \<open>The validator factory and the middlewares\<close>

text \<open>
  validation/createValidator.js: the payload and the schema go to the engine together
  with the options object \<open>{abortEarly: false}\<close>.
\<close>

definition createValidator :: "'s engine \<Rightarrow> 's \<Rightarrow> payload \<Rightarrow> payload promise" where
  "createValidator validate schema payload = validate payload schema \<lparr>abortEarly = False\<rparr>"

text \<open>
  validation/middlewares/validateMiddleware.js: \<open>then\<close> stores the validated payload in
  \<open>req.body\<close> and calls \<open>next()\<close>; \<open>catch(next)\<close> calls \<open>next\<close> with the rejection.
\<close>

definition validateMiddleware :: "'s engine \<Rightarrow> 's \<Rightarrow> middleware" where
  "validateMiddleware validate schema x =
     (let payload = body (req x) in
      case createValidator validate schema payload of
        Resolved validated \<Rightarrow> (set_body validated x, Next None)
      | Rejected err \<Rightarrow> (x, Next (Some err))
      | Pending \<Rightarrow> (x, Waiting))"

text \<open>
  validation/middlewares/validateForm.js: the \<open>catch\<close> handler reads
  \<open>err.details.map\<close>, which throws a \<open>TypeError\<close> when \<open>err.details\<close> is
  undefined; otherwise it logs the messages, flashes them and redirects.
\<close>

definition validateForm :: "'s engine \<Rightarrow> 's \<Rightarrow> string \<Rightarrow> middleware" where
  "validateForm validate schema redirectPath x =
     (let payload = body (req x) in
      case createValidator validate schema payload of
        Resolved validated \<Rightarrow> (set_body validated x, Next None)
      | Rejected err \<Rightarrow>
          (case details err of
             None \<Rightarrow> (x, UncaughtTypeError)
           | Some ds \<Rightarrow>
               (let errorMessages = map message ds in
                (res_redirect redirectPath
                   (req_flash_push ''validationFailure'' errorMessages
                      (console_log (LogMessages errorMessages) x)),
                 Ended)))
      | Pending \<Rightarrow> (x, Waiting))"

text \<open>
  middlewares/handleErrors.js. The handler assigns to \<open>err.statusCode\<close>, so the error
  object is part of the result. \<open>!err.statusCode\<close> holds for an absent status code and
  for the number 0; after the assignment the status code is present, and it is read for
  the status of the response and for the body.
\<close>

definition falsy_code :: "int option \<Rightarrow> bool" where
  "falsy_code c = (case c of None \<Rightarrow> True | Some n \<Rightarrow> n = 0)"

definition handleErrors :: "js_error option \<Rightarrow> exchange \<Rightarrow> js_error option \<times> exchange \<times> control" where
  "handleErrors err x =
     (case err of
        Some e \<Rightarrow>
          (let x1 = console_log (LogError (err_message e)) x;
               e1 = (if falsy_code (statusCode e) then e\<lparr>statusCode := Some 500\<rparr> else e);
               code = (case statusCode e1 of Some c \<Rightarrow> c | None \<Rightarrow> 500)
           in (Some e1, res_send (ErrorBody code (err_message e1)) (res_status code x1), Ended))
      | None \<Rightarrow> (None, x, Next None))"

text \<open>
  The flash-to-view middleware (src/unnamed/part_004, which server.js requires as
  middlewares/flashMessageInViews): three drains, in this order, each stored in
  \<open>res.locals\<close> under the name of its category, then \<open>next()\<close>.
\<close>

definition flashMessageInViews :: middleware where
  "flashMessageInViews x =
     (let (m1, x1) = req_flash_drain ''messageSuccess'' x;
          x2 = set_local ''messageSuccess'' m1 x1;
          (m2, x3) = req_flash_drain ''messageFailure'' x2;
          x4 = set_local ''messageFailure'' m2 x3;
          (m3, x5) = req_flash_drain ''validationFailure'' x4;
          x6 = set_local ''validationFailure'' m3 x5
      in (x6, Next None))"

section \<open>Schemas\<close>

text \<open>
  The schema objects the sources build with the joi package: an object with keys, each
  key a string or a number field with rules and a required flag
  (\<open>Joi.string()\<close>, \<open>Joi.number()\<close>, \<open>.email()\<close>, \<open>.alphanum()\<close>, \<open>.min(n)\<close>,
  \<open>.required()\<close>).
\<close>

datatype string_rule = Format string | MinLength nat

datatype number_rule = MinValue rat

datatype field_type = StringType "string_rule list" | NumberType "number_rule list"

record field_schema =
  ftype :: field_type
  required :: bool

type_synonym schema = "(string \<times> field_schema) list"

definition Joi_string :: field_schema where
  "Joi_string = \<lparr>ftype = StringType [], required = False\<rparr>"

definition Joi_number :: field_schema where
  "Joi_number = \<lparr>ftype = NumberType [], required = False\<rparr>"

definition add_string_rule :: "string_rule \<Rightarrow> field_schema \<Rightarrow> field_schema" where
  "add_string_rule r f =
     (case ftype f of
        StringType rs \<Rightarrow> f\<lparr>ftype := StringType (rs @ [r])\<rparr>
      | NumberType rs \<Rightarrow> f)"

definition add_number_rule :: "number_rule \<Rightarrow> field_schema \<Rightarrow> field_schema" where
  "add_number_rule r f =
     (case ftype f of
        NumberType rs \<Rightarrow> f\<lparr>ftype := NumberType (rs @ [r])\<rparr>
      | StringType rs \<Rightarrow> f)"

definition email :: "field_schema \<Rightarrow> field_schema" where
  "email = add_string_rule (Format ''email'')"

definition alphanum :: "field_schema \<Rightarrow> field_schema" where
  "alphanum = add_string_rule (Format ''alphanum'')"

definition string_min :: "nat \<Rightarrow> field_schema \<Rightarrow> field_schema" where
  "string_min n = add_string_rule (MinLength n)"

definition number_min :: "rat \<Rightarrow> field_schema \<Rightarrow> field_schema" where
  "number_min lo = add_number_rule (MinValue lo)"

definition require :: "field_schema \<Rightarrow> field_schema" where
  "require f = f\<lparr>required := True\<rparr>"

text \<open>validation/schemas/userSchema.js\<close>

definition createUserSchema :: schema where
  "createUserSchema =
     [(''email'', email Joi_string),
      (''name'', Joi_string),
      (''password'', alphanum (string_min 7 Joi_string))]"

text \<open>
  The product creation schema (src/unnamed/part_003, which the router requires as
  validation/schemas/productSchema), built on the shared \<open>priceSchema\<close>.
\<close>

definition priceSchema :: field_schema where
  "priceSchema = number_min (1 / 100) Joi_number"

definition createProductSchema :: schema where
  "createProductSchema =
     [(''description'', require Joi_string),
      (''price'', require priceSchema)]"

section \<open>The validation engine\<close>

text \<open>
  What the spec leaves open about the engine is a parameter of the model: which strings a
  named string format accepts, which strings read as a number when a number field is
  given a string, and how a number is printed in a message.
\<close>

record engine_lib =
  matches_format :: "string \<Rightarrow> string \<Rightarrow> bool"
  to_number :: "string \<Rightarrow> rat option"
  show_number :: "rat \<Rightarrow> string"

definition quoted :: "string \<Rightarrow> string" where
  "quoted k = [CHR 0x22] @ k @ [CHR 0x22]"

definition fail :: "string \<Rightarrow> string \<Rightarrow> string \<Rightarrow> failure" where
  "fail k what knd = \<lparr>message = quoted k @ '' '' @ what, path = [k], kind = knd\<rparr>"

definition string_rule_failures :: "engine_lib \<Rightarrow> string \<Rightarrow> string \<Rightarrow> string_rule \<Rightarrow> failure list" where
  "string_rule_failures lib k s r =
     (case r of
        Format name \<Rightarrow>
          (if matches_format lib name s then []
           else [fail k (''must be a valid '' @ name) (''string.'' @ name)])
      | MinLength n \<Rightarrow>
          (if n \<le> length s then []
           else [fail k (''length must be at least '' @ show_number lib (of_nat n) @ '' characters long'')
                   ''string.min'']))"

definition number_rule_failures :: "engine_lib \<Rightarrow> string \<Rightarrow> rat \<Rightarrow> number_rule \<Rightarrow> failure list" where
  "number_rule_failures lib k x r =
     (case r of
        MinValue lo \<Rightarrow>
          (if lo \<le> x then []
           else [fail k (''must be larger than or equal to '' @ show_number lib lo) ''number.min'']))"

definition coerce_number :: "engine_lib \<Rightarrow> jvalue \<Rightarrow> rat option" where
  "coerce_number lib v =
     (case v of
        JNumber x \<Rightarrow> Some x
      | JString s \<Rightarrow> to_number lib s
      | JBool b \<Rightarrow> None
      | JNull \<Rightarrow> None)"

text \<open>
  Modelled from the spec: the rule engine (\<open>Joi.validate\<close> of the joi package), which the
  spec treats as a black box \<open>validate(payload, schema) -> Result\<close> and whose code is not
  part of the sources. From the spec's words: every field rule of the schema is checked
  (presence, type, numeric bounds, string format); a failure is a record of message, path
  and kind, the path naming the offending field; the normalized payload has the same field
  values, coerced to the declared types; the engine's default stops at the first failure,
  and reports every failure when that is requested (\<open>abortEarly = False\<close>). The spec
  says nothing about fields of the payload that the schema does not name: they are left as
  they are.
\<close>

definition check_value :: "engine_lib \<Rightarrow> string \<Rightarrow> field_type \<Rightarrow> jvalue \<Rightarrow> failure list \<times> jvalue" where
  "check_value lib k t v =
     (case t of
        StringType rules \<Rightarrow>
          (case v of
             JString s \<Rightarrow> (concat (map (string_rule_failures lib k s) rules), v)
           | JNumber x \<Rightarrow> ([fail k ''must be a string'' ''string.base''], v)
           | JBool b \<Rightarrow> ([fail k ''must be a string'' ''string.base''], v)
           | JNull \<Rightarrow> ([fail k ''must be a string'' ''string.base''], v))
      | NumberType rules \<Rightarrow>
          (case coerce_number lib v of
             Some x \<Rightarrow> (concat (map (number_rule_failures lib k x) rules), JNumber x)
           | None \<Rightarrow> ([fail k ''must be a number'' ''number.base''], v)))"

definition check_field :: "engine_lib \<Rightarrow> payload \<Rightarrow> string \<times> field_schema \<Rightarrow> failure list" where
  "check_field lib payload entry =
     (case entry of (k, f) \<Rightarrow>
        (case map_of payload k of
           None \<Rightarrow> (if required f then [fail k ''is required'' ''any.required''] else [])
         | Some v \<Rightarrow> fst (check_value lib k (ftype f) v)))"

definition schema_failures :: "engine_lib \<Rightarrow> schema \<Rightarrow> payload \<Rightarrow> failure list" where
  "schema_failures lib schema payload = concat (map (check_field lib payload) schema)"

definition normalize_entry :: "engine_lib \<Rightarrow> schema \<Rightarrow> string \<times> jvalue \<Rightarrow> string \<times> jvalue" where
  "normalize_entry lib schema entry =
     (case entry of (k, v) \<Rightarrow>
        (case map_of schema k of
           None \<Rightarrow> (k, v)
         | Some f \<Rightarrow> (k, snd (check_value lib k (ftype f) v))))"

definition normalize :: "engine_lib \<Rightarrow> schema \<Rightarrow> payload \<Rightarrow> payload" where
  "normalize lib schema payload = map (normalize_entry lib schema) payload"

fun join_messages :: "failure list \<Rightarrow> string" where
  "join_messages [] = []"
| "join_messages [f] = message f"
| "join_messages (f # g # fs) = message f @ ''. '' @ join_messages (g # fs)"

definition validation_error :: "failure list \<Rightarrow> js_error" where
  "validation_error fs = \<lparr>err_message = join_messages fs, statusCode = None, details = Some fs\<rparr>"

definition joi_validate :: "engine_lib \<Rightarrow> schema engine" where
  "joi_validate lib payload schema opts =
     (let fs = schema_failures lib schema payload in
      if fs = [] then Resolved (normalize lib schema payload)
      else Rejected (validation_error (if abortEarly opts then take 1 fs else fs)))"

text \<open>Modelled from the spec: the engine's default options stop at the first failure.\<close>

definition default_options :: options where
  "default_options = \<lparr>abortEarly = True\<rparr>"

text \<open>The fields of the schema that the payload violates, in schema order.\<close>

definition failing_fields :: "engine_lib \<Rightarrow> schema \<Rightarrow> payload \<Rightarrow> string list" where
  "failing_fields lib schema payload =
     map fst (filter (\<lambda>entry. check_field lib payload entry \<noteq> []) schema)"

section \<open>Routes\<close>

text \<open>
  \<open>router.post(path, m, h)\<close>: the handler \<open>h\<close> runs when the middleware \<open>m\<close> has
  called \<open>next()\<close> without an error.
\<close>

definition route :: "middleware \<Rightarrow> middleware \<Rightarrow> middleware" where
  "route m h x = (case m x of (x', Next None) \<Rightarrow> h x' | (x', c) \<Rightarrow> (x', c))"

text \<open>
  The router (src/unnamed/part_002), \<open>POST /signup\<close>: the handler behind
  \<open>validateForm\<close> logs the body, flashes the one message \<open>woohoo\<close> and redirects.
\<close>

definition signup_posted :: middleware where
  "signup_posted x =
     (let payload = body (req x) in
      (res_redirect ''/signup''
         (req_flash_push ''messageSuccess'' [''woohoo'']
            (console_log (LogPayload payload) x)),
       Ended))"

definition post_signup :: "schema engine \<Rightarrow> middleware" where
  "post_signup validate = route (validateForm validate createUserSchema ''/signup'') signup_posted"

section \<open>Sample inputs\<close>

text \<open>
  One choice of the engine's open parts, to run the model on: a format accepts a non-empty
  string without an exclamation mark, the one string read as a number is \<open>5\<close>, and the
  two bounds of the schemas are printed as written in the sources.
\<close>

definition sample_lib :: engine_lib where
  "sample_lib =
     \<lparr>matches_format = (\<lambda>name s. s \<noteq> [] \<and> CHR ''!'' \<notin> set s),
      to_number = (\<lambda>s. if s = ''5'' then Some 5 else None),
      show_number = (\<lambda>x. if x = 7 then ''7'' else if x = 1 / 100 then ''0.01'' else ''?'')\<rparr>"

text \<open>A request with the given body, an empty flash store and nothing sent yet.\<close>

definition fresh :: "payload \<Rightarrow> exchange" where
  "fresh p =
     \<lparr>req = \<lparr>body = p, session_flash = (\<lambda>c. [])\<rparr>,
      res = \<lparr>status = 200, reply = None, locals = Map.empty\<rparr>,
      console = []\<rparr>"

definition valid_product :: payload where
  "valid_product = [(''description'', JString ''red book''), (''price'', JString ''5'')]"

definition cheap_product :: payload where
  "cheap_product = [(''description'', JString ''red book''), (''price'', JNumber (1 / 10000))]"

definition nameless_cheap_product :: payload where
  "nameless_cheap_product = [(''price'', JNumber (1 / 10000))]"

definition short_password :: payload where
  "short_password =
     [(''email'', JString ''a@b.com''), (''name'', JString ''A''), (''password'', JString ''short'')]"

definition price_too_low :: failure where
  "price_too_low = fail ''price'' ''must be larger than or equal to 0.01'' ''number.min''"

definition password_too_short :: failure where
  "password_too_short = fail ''password'' ''length must be at least 7 characters long'' ''string.min''"

definition description_required :: failure where
  "description_required = fail ''description'' ''is required'' ''any.required''"

definition plain_error :: js_error where
  "plain_error = \<lparr>err_message = ''boom'', statusCode = None, details = None\<rparr>"

definition pending_flash :: exchange where
  "pending_flash =
     req_flash_push ''validationFailure'' [''first'', ''second'']
       (req_flash_push ''other'' [''kept''] (fresh []))"

section \<open>Evaluating the engine\<close>

lemma path_fail: "path (fail k what knd) = [k]"
  by (simp add: fail_def)

lemma message_fail: "message (fail k what knd) = quoted k @ '' '' @ what"
  by (simp add: fail_def)

lemma createValidator_joi:
  "createValidator (joi_validate lib) schema payload =
     (if schema_failures lib schema payload = [] then Resolved (normalize lib schema payload)
      else Rejected (validation_error (schema_failures lib schema payload)))"
  by (simp add: createValidator_def joi_validate_def)

lemmas schema_defs =
  createProductSchema_def priceSchema_def createUserSchema_def require_def number_min_def
  string_min_def email_def alphanum_def add_number_rule_def add_string_rule_def
  Joi_string_def Joi_number_def

lemmas engine_defs =
  schema_failures_def check_field_def check_value_def coerce_number_def
  number_rule_failures_def string_rule_failures_def normalize_def normalize_entry_def

lemma valid_product_failures: "schema_failures sample_lib createProductSchema valid_product = []"
  by (simp add: engine_defs schema_defs sample_lib_def valid_product_def)

lemma valid_product_normalized:
  "normalize sample_lib createProductSchema valid_product =
     [(''description'', JString ''red book''), (''price'', JNumber 5)]"
  by (simp add: engine_defs schema_defs sample_lib_def valid_product_def)

lemma valid_product_resolves:
  "createValidator (joi_validate sample_lib) createProductSchema valid_product =
     Resolved [(''description'', JString ''red book''), (''price'', JNumber 5)]"
  by (simp add: createValidator_joi valid_product_failures valid_product_normalized)

lemma cheap_product_failures:
  "schema_failures sample_lib createProductSchema cheap_product = [price_too_low]"
  by (simp add: engine_defs schema_defs sample_lib_def cheap_product_def price_too_low_def)

lemma cheap_product_rejected:
  "createValidator (joi_validate sample_lib) createProductSchema cheap_product =
     Rejected (validation_error [price_too_low])"
  by (simp add: createValidator_joi cheap_product_failures)

lemma nameless_cheap_product_failures:
  "schema_failures sample_lib createProductSchema nameless_cheap_product =
     [description_required, price_too_low]"
  by (simp add: engine_defs schema_defs sample_lib_def nameless_cheap_product_def
      price_too_low_def description_required_def)

lemma nameless_cheap_product_failing:
  "failing_fields sample_lib createProductSchema nameless_cheap_product = [''description'', ''price'']"
  by (simp add: failing_fields_def engine_defs schema_defs sample_lib_def nameless_cheap_product_def)

lemma short_password_failures:
  "schema_failures sample_lib createUserSchema short_password = [password_too_short]"
  by (simp add: engine_defs schema_defs sample_lib_def short_password_def password_too_short_def)

lemma short_password_rejected:
  "createValidator (joi_validate sample_lib) createUserSchema short_password =
     Rejected (validation_error [password_too_short])"
  by (simp add: createValidator_joi short_password_failures)

lemma createUserSchema_empty: "schema_failures lib createUserSchema [] = []"
  by (simp add: schema_failures_def check_field_def schema_defs)

section \<open>Every failure carries the name of its field\<close>

lemma string_rule_failures_path: "fl \<in> set (string_rule_failures lib k s r) \<Longrightarrow> path fl = [k]"
  by (cases r) (auto simp add: string_rule_failures_def path_fail split: if_splits)

lemma number_rule_failures_path: "fl \<in> set (number_rule_failures lib k x r) \<Longrightarrow> path fl = [k]"
  by (cases r) (auto simp add: number_rule_failures_def path_fail split: if_splits)

lemma check_value_path: "fl \<in> set (fst (check_value lib k t v)) \<Longrightarrow> path fl = [k]"
  by (cases t; cases v)
    (auto simp add: check_value_def path_fail
      dest: string_rule_failures_path number_rule_failures_path split: option.splits)

lemma check_field_path: "fl \<in> set (check_field lib payload (k, f)) \<Longrightarrow> path fl = [k]"
  by (auto simp add: check_field_def path_fail dest: check_value_path split: option.splits if_splits)

lemma check_field_in_failures:
  "entry \<in> set schema \<Longrightarrow> set (check_field lib payload entry) \<subseteq> set (schema_failures lib schema payload)"
  by (auto simp add: schema_failures_def)

lemma failing_field_reported:
  assumes "k \<in> set (failing_fields lib schema payload)"
  shows "\<exists>fl \<in> set (schema_failures lib schema payload). path fl = [k]"
proof -
  from assms obtain f where entry: "(k, f) \<in> set schema" and bad: "check_field lib payload (k, f) \<noteq> []"
    by (auto simp add: failing_fields_def)
  from bad obtain fl where fl: "fl \<in> set (check_field lib payload (k, f))"
    by (cases "check_field lib payload (k, f)") auto
  with entry have "fl \<in> set (schema_failures lib schema payload)"
    using check_field_in_failures by blast
  moreover from fl have "path fl = [k]" by (rule check_field_path)
  ultimately show ?thesis by blast
qed

lemma failing_fields_length:
  "length (failing_fields lib schema payload) \<le> length (schema_failures lib schema payload)"
proof (induction schema)
  case Nil
  then show ?case by (simp add: failing_fields_def schema_failures_def)
next
  case (Cons entry schema)
  have "check_field lib payload entry \<noteq> [] \<Longrightarrow> 1 \<le> length (check_field lib payload entry)"
    by (cases "check_field lib payload entry") simp_all
  with Cons show ?case
    by (auto simp add: failing_fields_def schema_failures_def)
qed

section \<open>The validator factory\<close>

text \<open>
  C1. When two or more fields of the schema are violated, the validator built by
  \<open>createValidator\<close> rejects, the \<open>details\<close> of the rejection hold an entry for every
  violated field (so at least two entries), and this is so because \<open>createValidator\<close>
  calls the engine with \<open>abortEarly\<close> switched off: with the engine's default options the
  same payload is rejected with a single entry.
\<close>

theorem createValidator_collects_all:
  assumes "2 \<le> length (failing_fields lib schema payload)"
  shows "(\<exists>err ds. createValidator (joi_validate lib) schema payload = Rejected err
            \<and> details err = Some ds
            \<and> (\<forall>k \<in> set (failing_fields lib schema payload). \<exists>fl \<in> set ds. path fl = [k])
            \<and> 2 \<le> length ds)
       \<and> createValidator (joi_validate lib) schema payload =
           joi_validate lib payload schema (default_options\<lparr>abortEarly := False\<rparr>)
       \<and> (\<exists>err ds. joi_validate lib payload schema default_options = Rejected err
            \<and> details err = Some ds \<and> length ds = 1)"
proof -
  let ?fs = "schema_failures lib schema payload"
  from assms have len: "2 \<le> length ?fs"
    using failing_fields_length [of lib schema payload] by simp
  then have ne: "?fs \<noteq> []" by auto
  have all: "\<forall>k \<in> set (failing_fields lib schema payload). \<exists>fl \<in> set ?fs. path fl = [k]"
    using failing_field_reported by blast
  from ne all len have first: "\<exists>err ds. createValidator (joi_validate lib) schema payload = Rejected err
            \<and> details err = Some ds
            \<and> (\<forall>k \<in> set (failing_fields lib schema payload). \<exists>fl \<in> set ds. path fl = [k])
            \<and> 2 \<le> length ds"
    by (simp add: createValidator_joi validation_error_def)
  have second: "createValidator (joi_validate lib) schema payload =
           joi_validate lib payload schema (default_options\<lparr>abortEarly := False\<rparr>)"
    by (simp add: createValidator_def default_options_def)
  from ne have third: "\<exists>err ds. joi_validate lib payload schema default_options = Rejected err
            \<and> details err = Some ds \<and> length ds = 1"
    by (cases ?fs) (simp_all add: joi_validate_def default_options_def validation_error_def)
  from first second third show ?thesis by blast
qed

theorem createValidator_collects_all_witness:
  "2 \<le> length (failing_fields sample_lib createProductSchema nameless_cheap_product)
 \<and> createValidator (joi_validate sample_lib) createProductSchema nameless_cheap_product =
      Rejected (validation_error [description_required, price_too_low])
 \<and> path description_required = [''description''] \<and> path price_too_low = [''price'']
 \<and> joi_validate sample_lib nameless_cheap_product createProductSchema default_options =
      Rejected (validation_error [description_required])"
  using createValidator_collects_all [of sample_lib createProductSchema nameless_cheap_product]
  by (simp add: nameless_cheap_product_failing nameless_cheap_product_failures createValidator_joi
      joi_validate_def default_options_def description_required_def price_too_low_def path_fail)

text \<open>
  C7. A payload that lacks a field which the schema marks as required (the description or
  the price of the product creation schema, for one) is rejected, and the \<open>details\<close> of
  the rejection hold an entry whose path contains the name of that field.
\<close>

theorem required_field_missing:
  assumes "(k, f) \<in> set schema" and "required f" and "map_of payload k = None"
  shows "\<exists>err ds fl. createValidator (joi_validate lib) schema payload = Rejected err
           \<and> details err = Some ds \<and> fl \<in> set ds \<and> k \<in> set (path fl)"
proof -
  from assms(2,3) have "check_field lib payload (k, f) = [fail k ''is required'' ''any.required'']"
    by (simp add: check_field_def)
  with assms(1) have mem: "fail k ''is required'' ''any.required'' \<in> set (schema_failures lib schema payload)"
    using check_field_in_failures [of "(k, f)" schema lib payload] by auto
  then have "schema_failures lib schema payload \<noteq> []" by auto
  with mem show ?thesis
    by (auto simp add: createValidator_joi validation_error_def path_fail intro!: exI bexI)
qed

theorem required_field_missing_witness:
  "(''price'', require priceSchema) \<in> set createProductSchema
 \<and> required (require priceSchema)
 \<and> map_of [(''description'', JString ''red book'')] ''price'' = None
 \<and> (\<exists>err ds fl.
        createValidator (joi_validate sample_lib) createProductSchema
          [(''description'', JString ''red book'')] = Rejected err
      \<and> details err = Some ds \<and> fl \<in> set ds \<and> ''price'' \<in> set (path fl))"
proof -
  have a: "(''price'', require priceSchema) \<in> set createProductSchema"
    by (simp add: createProductSchema_def)
  have b: "required (require priceSchema)"
    by (simp add: require_def)
  have c: "map_of [(''description'', JString ''red book'')] ''price'' = None"
    by simp
  from a b c required_field_missing [OF a b c, of sample_lib] show ?thesis
    by blast
qed

section \<open>Validating twice\<close>

lemma check_value_again:
  "snd (check_value lib k t (snd (check_value lib k t v))) = snd (check_value lib k t v)"
  by (cases t; cases v) (auto simp add: check_value_def coerce_number_def split: option.splits)

lemma check_value_settled:
  "fst (check_value lib k t v) = [] \<Longrightarrow> fst (check_value lib k t (snd (check_value lib k t v))) = []"
  by (cases t; cases v) (auto simp add: check_value_def coerce_number_def split: option.splits)

lemma normalize_entry_again:
  "normalize_entry lib schema (normalize_entry lib schema entry) = normalize_entry lib schema entry"
  by (cases entry) (simp add: normalize_entry_def check_value_again split: option.splits)

lemma normalize_again: "normalize lib schema (normalize lib schema payload) = normalize lib schema payload"
  by (simp add: normalize_def normalize_entry_again)

lemma map_of_normalize:
  "map_of (normalize lib schema payload) k =
     map_option (\<lambda>v. snd (normalize_entry lib schema (k, v))) (map_of payload k)"
  by (induction payload) (auto simp add: normalize_def normalize_entry_def split: option.splits)

lemma check_field_normalize:
  assumes "distinct (map fst schema)" and "(k, f) \<in> set schema"
    and "check_field lib payload (k, f) = []"
  shows "check_field lib (normalize lib schema payload) (k, f) = []"
proof (cases "map_of payload k")
  case None
  with assms(3) show ?thesis
    by (simp add: check_field_def map_of_normalize)
next
  case (Some v)
  from assms(1,2) have "map_of schema k = Some f" by simp
  with Some assms(3) show ?thesis
    by (simp add: check_field_def map_of_normalize normalize_entry_def check_value_settled)
qed

lemma schema_failures_normalize:
  assumes "distinct (map fst schema)" and "schema_failures lib schema payload = []"
  shows "schema_failures lib schema (normalize lib schema payload) = []"
proof -
  have "check_field lib (normalize lib schema payload) entry = []" if "entry \<in> set schema" for entry
  proof -
    obtain k f where entry: "entry = (k, f)" by (cases entry)
    from assms(2) that have "check_field lib payload entry = []"
      by (simp add: schema_failures_def)
    with assms(1) that entry show ?thesis
      using check_field_normalize by blast
  qed
  then show ?thesis by (simp add: schema_failures_def)
qed

text \<open>
  C6. Validation is idempotent: when the validator of a schema (an object, so each key
  occurs once) resolves with a normalized payload, the same validator applied to that
  normalized payload resolves too, with the very same payload.
\<close>

theorem validation_idempotent:
  assumes "distinct (map fst schema)"
    and "createValidator (joi_validate lib) schema payload = Resolved normalized"
  shows "createValidator (joi_validate lib) schema normalized = Resolved normalized"
proof -
  from assms(2) have ok: "schema_failures lib schema payload = []"
    and n: "normalized = normalize lib schema payload"
    by (auto simp add: createValidator_joi split: if_splits)
  from assms(1) ok have "schema_failures lib schema normalized = []"
    unfolding n by (rule schema_failures_normalize)
  then show ?thesis
    by (simp add: createValidator_joi n normalize_again)
qed

theorem validation_idempotent_witness:
  "distinct (map fst createProductSchema)
 \<and> createValidator (joi_validate sample_lib) createProductSchema valid_product =
      Resolved [(''description'', JString ''red book''), (''price'', JNumber 5)]
 \<and> createValidator (joi_validate sample_lib) createProductSchema
      [(''description'', JString ''red book''), (''price'', JNumber 5)] =
      Resolved [(''description'', JString ''red book''), (''price'', JNumber 5)]"
proof -
  have a: "distinct (map fst createProductSchema)"
    by (simp add: createProductSchema_def)
  from a valid_product_resolves validation_idempotent [OF a valid_product_resolves]
  show ?thesis by simp
qed

section \<open>The API validation middleware\<close>

text \<open>
  C2. The middleware built by \<open>validateMiddleware\<close>, for any engine, schema and request:
  when the body validates, \<open>req.body\<close> becomes the normalized payload and \<open>next\<close> is
  called without an error; when validation fails, \<open>next\<close> is called with the rejection
  itself and nothing else changes; in every case the response (so no redirect) and the
  flash store are left as they were.
\<close>

theorem validateMiddleware_contract:
  fixes validate :: "'s engine"
  shows "(createValidator validate schema (body (req x)) = Resolved v \<longrightarrow>
            validateMiddleware validate schema x = (x\<lparr>req := (req x)\<lparr>body := v\<rparr>\<rparr>, Next None))
       \<and> (createValidator validate schema (body (req x)) = Rejected err \<longrightarrow>
            validateMiddleware validate schema x = (x, Next (Some err)))
       \<and> res (fst (validateMiddleware validate schema x)) = res x
       \<and> session_flash (req (fst (validateMiddleware validate schema x))) = session_flash (req x)"
  by (simp add: validateMiddleware_def set_body_def split: promise.split)

theorem validateMiddleware_contract_witness:
  "validateMiddleware (joi_validate sample_lib) createProductSchema (fresh valid_product) =
     (fresh [(''description'', JString ''red book''), (''price'', JNumber 5)], Next None)
 \<and> validateMiddleware (joi_validate sample_lib) createProductSchema (fresh cheap_product) =
     (fresh cheap_product, Next (Some (validation_error [price_too_low])))
 \<and> details (validation_error [price_too_low]) = Some [price_too_low]"
  using validateMiddleware_contract [of "joi_validate sample_lib" createProductSchema "fresh valid_product"
      "[(''description'', JString ''red book''), (''price'', JNumber 5)]"]
    validateMiddleware_contract [of "joi_validate sample_lib" createProductSchema "fresh cheap_product" _
      "validation_error [price_too_low]"]
    valid_product_resolves cheap_product_rejected
  by (simp add: fresh_def validation_error_def)

section \<open>The form validation middleware\<close>

text \<open>
  C3. On an invalid body, whose rejection carries the list \<open>details\<close>, the middleware
  built by \<open>validateForm\<close> appends the messages of the failures, in the order of
  \<open>details\<close>, to the flash category \<open>validationFailure\<close>, answers with a redirect to
  the redirect path, and does not call \<open>next\<close> (so no error reaches the error handler).
  Besides that it only writes the messages to the console.
\<close>

theorem validateForm_failure:
  fixes validate :: "'s engine"
  assumes "createValidator validate schema (body (req x)) = Rejected err"
    and "details err = Some ds"
  shows "validateForm validate schema redirectPath x =
           (x\<lparr>req := (req x)\<lparr>session_flash := (session_flash (req x))
                    (''validationFailure'' := session_flash (req x) ''validationFailure'' @ map message ds)\<rparr>,
              res := (res x)\<lparr>reply := Some (Redirect redirectPath)\<rparr>,
              console := console x @ [LogMessages (map message ds)]\<rparr>,
            Ended)
       \<and> (\<forall>e. snd (validateForm validate schema redirectPath x) \<noteq> Next e)"
  using assms
  by (simp add: validateForm_def res_redirect_def req_flash_push_def flash_push_def console_log_def
      Let_def)

theorem validateForm_failure_witness:
  "createValidator (joi_validate sample_lib) createUserSchema (body (req (fresh short_password))) =
     Rejected (validation_error [password_too_short])
 \<and> details (validation_error [password_too_short]) = Some [password_too_short]
 \<and> validateForm (joi_validate sample_lib) createUserSchema ''/signup'' (fresh short_password) =
     ((fresh short_password)
        \<lparr>req := (req (fresh short_password))\<lparr>session_flash :=
                  (\<lambda>c. [])(''validationFailure'' := [message password_too_short])\<rparr>,
         res := (res (fresh short_password))\<lparr>reply := Some (Redirect ''/signup'')\<rparr>,
         console := [LogMessages [message password_too_short]]\<rparr>,
      Ended)"
proof -
  have a: "createValidator (joi_validate sample_lib) createUserSchema (body (req (fresh short_password))) =
     Rejected (validation_error [password_too_short])"
    by (simp add: fresh_def short_password_rejected)
  have b: "details (validation_error [password_too_short]) = Some [password_too_short]"
    by (simp add: validation_error_def)
  from a b validateForm_failure [OF a b, of "''/signup''"] show ?thesis
    by (simp add: fresh_def)
qed

text \<open>
  C9. The \<open>catch\<close> handler of \<open>validateForm\<close> reads \<open>err.details.map\<close> whatever the
  rejection is: when the rejection has no \<open>details\<close>, the handler throws, nothing is
  flashed, nothing is sent and \<open>next\<close> is not called.
\<close>

theorem validateForm_details_absent:
  fixes validate :: "'s engine"
  assumes "createValidator validate schema (body (req x)) = Rejected err"
    and "details err = None"
  shows "validateForm validate schema redirectPath x = (x, UncaughtTypeError)"
  using assms by (simp add: validateForm_def)

theorem validateForm_details_absent_witness:
  "createValidator (\<lambda>p s opts. Rejected plain_error) () (body (req (fresh []))) = Rejected plain_error
 \<and> details plain_error = None
 \<and> validateForm (\<lambda>p s opts. Rejected plain_error) () ''/signup'' (fresh []) = (fresh [], UncaughtTypeError)"
proof -
  have a: "createValidator (\<lambda>p s opts. Rejected plain_error) () (body (req (fresh []))) = Rejected plain_error"
    by (simp add: createValidator_def)
  have b: "details plain_error = None"
    by (simp add: plain_error_def)
  from a b validateForm_details_absent [OF a b, of "''/signup''"] show ?thesis
    by simp
qed

section \<open>The centralized error handler\<close>

text \<open>
  C4. Given an error without a status code, \<open>handleErrors\<close> answers with status 500 and
  the body \<open>{statusCode: 500, message: err.message}\<close>; given an error with a status code
  \<open>n\<close> other than 0 (400, for one), it answers with status \<open>n\<close> and a body holding
  \<open>n\<close> and the message of the error; given no error, it calls \<open>next\<close> and responds
  nothing.
\<close>

theorem handleErrors_contract:
  "(statusCode e = None \<longrightarrow>
      status (res (fst (snd (handleErrors (Some e) x)))) = 500
    \<and> reply (res (fst (snd (handleErrors (Some e) x)))) = Some (Send (ErrorBody 500 (err_message e)))
    \<and> snd (snd (handleErrors (Some e) x)) = Ended)
 \<and> (statusCode e = Some n \<and> n \<noteq> 0 \<longrightarrow>
      status (res (fst (snd (handleErrors (Some e) x)))) = n
    \<and> reply (res (fst (snd (handleErrors (Some e) x)))) = Some (Send (ErrorBody n (err_message e)))
    \<and> snd (snd (handleErrors (Some e) x)) = Ended)
 \<and> handleErrors None x = (None, x, Next None)"
  by (simp add: handleErrors_def falsy_code_def res_send_def res_status_def console_log_def Let_def)

theorem handleErrors_contract_witness:
  "status (res (fst (snd (handleErrors (Some plain_error) (fresh []))))) = 500
 \<and> reply (res (fst (snd (handleErrors (Some plain_error) (fresh []))))) = Some (Send (ErrorBody 500 ''boom''))
 \<and> status (res (fst (snd (handleErrors (Some (plain_error\<lparr>statusCode := Some 400\<rparr>)) (fresh []))))) = 400
 \<and> reply (res (fst (snd (handleErrors (Some (plain_error\<lparr>statusCode := Some 400\<rparr>)) (fresh []))))) =
      Some (Send (ErrorBody 400 ''boom''))
 \<and> handleErrors None (fresh []) = (None, fresh [], Next None)"
  using handleErrors_contract [where e = plain_error and x = "fresh []"]
    handleErrors_contract [where e = "plain_error\<lparr>statusCode := Some 400\<rparr>" and n = 400 and x = "fresh []"]
  by (simp add: plain_error_def)

text \<open>
  C10. \<open>handleErrors\<close> writes to the error object it is given: an error without a status
  code leaves the handler with \<open>statusCode\<close> 500, so it is not the value that came in;
  and whatever error was given, after the response its \<open>statusCode\<close> is the number that
  was used as the status of the response.
\<close>

theorem handleErrors_assigns_statusCode:
  "(statusCode e = None \<longrightarrow>
      fst (handleErrors (Some e) x) = Some (e\<lparr>statusCode := Some 500\<rparr>)
    \<and> fst (handleErrors (Some e) x) \<noteq> Some e)
 \<and> (\<exists>e'. fst (handleErrors (Some e) x) = Some e'
        \<and> statusCode e' = Some (status (res (fst (snd (handleErrors (Some e) x))))))"
  by (cases "statusCode e")
    (auto simp add: handleErrors_def falsy_code_def res_send_def res_status_def console_log_def Let_def
      dest: arg_cong [where f = statusCode])

theorem handleErrors_assigns_statusCode_witness:
  "statusCode plain_error = None
 \<and> fst (handleErrors (Some plain_error) (fresh [])) = Some (plain_error\<lparr>statusCode := Some 500\<rparr>)
 \<and> status (res (fst (snd (handleErrors (Some plain_error) (fresh []))))) = 500"
  using handleErrors_assigns_statusCode [of plain_error "fresh []"]
  by (auto simp add: plain_error_def)

section \<open>The flash-to-view bridge\<close>

text \<open>
  C5. \<open>flashMessageInViews\<close> always calls \<open>next\<close> without an error. It drains the three
  categories \<open>messageSuccess\<close>, \<open>messageFailure\<close> and \<open>validationFailure\<close> and
  stores what each held in \<open>res.locals\<close> under the name of the category; every other
  category of the flash store, every other entry of \<open>res.locals\<close> and the rest of the
  request and the response stay as they were.
\<close>

theorem flashMessageInViews_contract:
  "snd (flashMessageInViews x) = Next None
 \<and> (\<forall>c \<in> {''messageSuccess'', ''messageFailure'', ''validationFailure''}.
        locals (res (fst (flashMessageInViews x))) c = Some (session_flash (req x) c)
      \<and> session_flash (req (fst (flashMessageInViews x))) c = [])
 \<and> (\<forall>c. c \<notin> {''messageSuccess'', ''messageFailure'', ''validationFailure''} \<longrightarrow>
        locals (res (fst (flashMessageInViews x))) c = locals (res x) c
      \<and> session_flash (req (fst (flashMessageInViews x))) c = session_flash (req x) c)
 \<and> body (req (fst (flashMessageInViews x))) = body (req x)
 \<and> status (res (fst (flashMessageInViews x))) = status (res x)
 \<and> reply (res (fst (flashMessageInViews x))) = reply (res x)
 \<and> console (fst (flashMessageInViews x)) = console x"
  by (simp add: flashMessageInViews_def req_flash_drain_def flash_drain_def set_local_def)

theorem flashMessageInViews_contract_witness:
  "snd (flashMessageInViews pending_flash) = Next None
 \<and> locals (res (fst (flashMessageInViews pending_flash))) ''validationFailure'' = Some [''first'', ''second'']
 \<and> locals (res (fst (flashMessageInViews pending_flash))) ''messageSuccess'' = Some []
 \<and> locals (res (fst (flashMessageInViews pending_flash))) ''messageFailure'' = Some []
 \<and> session_flash (req (fst (flashMessageInViews pending_flash))) ''validationFailure'' = []
 \<and> session_flash (req (fst (flashMessageInViews pending_flash))) ''other'' = [''kept'']
 \<and> locals (res (fst (flashMessageInViews pending_flash))) ''other'' = None"
  using flashMessageInViews_contract [of pending_flash]
  by (simp add: pending_flash_def req_flash_push_def flash_push_def fresh_def)

section \<open>The signup route\<close>

text \<open>
  C8. No field of \<open>createUserSchema\<close> is required, so the empty payload validates, and
  \<open>POST /signup\<close> with an empty body runs the handler behind \<open>validateForm\<close>: it
  flashes the success message and redirects to \<open>/signup\<close>; the flash category
  \<open>validationFailure\<close> is not written.
\<close>

theorem signup_empty_body:
  "map (\<lambda>(k, f). (k, required f)) createUserSchema =
     [(''email'', False), (''name'', False), (''password'', False)]
 \<and> createValidator (joi_validate lib) createUserSchema [] = Resolved []
 \<and> (body (req x) = [] \<longrightarrow>
      post_signup (joi_validate lib) x =
        (x\<lparr>req := (req x)\<lparr>session_flash := (session_flash (req x))
                 (''messageSuccess'' := session_flash (req x) ''messageSuccess'' @ [''woohoo''])\<rparr>,
           res := (res x)\<lparr>reply := Some (Redirect ''/signup'')\<rparr>,
           console := console x @ [LogPayload []]\<rparr>,
         Ended))"
proof -
  have a: "map (\<lambda>(k, f). (k, required f)) createUserSchema =
     [(''email'', False), (''name'', False), (''password'', False)]"
    by (simp add: schema_defs)
  have b: "createValidator (joi_validate lib) createUserSchema [] = Resolved []"
    by (simp add: createValidator_joi createUserSchema_empty normalize_def)
  have c: "post_signup (joi_validate lib) x =
        (x\<lparr>req := (req x)\<lparr>session_flash := (session_flash (req x))
                 (''messageSuccess'' := session_flash (req x) ''messageSuccess'' @ [''woohoo''])\<rparr>,
           res := (res x)\<lparr>reply := Some (Redirect ''/signup'')\<rparr>,
           console := console x @ [LogPayload []]\<rparr>,
         Ended)" if "body (req x) = []"
    using that b
    by (simp add: post_signup_def route_def validateForm_def signup_posted_def set_body_def
        res_redirect_def req_flash_push_def flash_push_def console_log_def)
  from a b c show ?thesis by blast
qed

theorem signup_empty_body_witness:
  "body (req (fresh [])) = []
 \<and> post_signup (joi_validate sample_lib) (fresh []) =
     ((fresh [])\<lparr>req := (req (fresh []))\<lparr>session_flash := (\<lambda>c. [])(''messageSuccess'' := [''woohoo''])\<rparr>,
                 res := (res (fresh []))\<lparr>reply := Some (Redirect ''/signup'')\<rparr>,
                 console := [LogPayload []]\<rparr>,
      Ended)"
  using signup_empty_body [of sample_lib "fresh []"]
  by (simp add: fresh_def)

end
